theory Spec2Isabelle
  imports Main
begin

section \<open>throw-res: responses thrown through the error channel of Express\<close>

text \<open>
  The package is one file, \<^verbatim>\<open>src/index.ts\<close>: the error-handling middleware
  \<^verbatim>\<open>throwableResponses\<close> and the three classes \<^verbatim>\<open>ThrowableResponse\<close>,
  \<^verbatim>\<open>ThrowableRedirect\<close> and \<^verbatim>\<open>ThrowableJson\<close>. The embedding follows the
  TypeScript as it is typed: an object of a class is a record of its fields, a function
  with effects takes the state of the host and returns the new one, an optional parameter
  is an \<open>option\<close>.
\<close>

subsection \<open>Values handed to the code\<close>

text \<open>
  \<^verbatim>\<open>type Json = string | number | boolean | null | JsonArray | JsonObject\<close>.
  The code never looks inside a payload, so the type of its numbers is left open
  (\<open>'n\<close>); an object is the list of its entries in insertion order.
\<close>

datatype 'n Json =
    JString string
  | JNumber 'n
  | JBoolean bool
  | JNull
  | JArray "'n Json list"
  | JObject "(string \<times> 'n Json) list"

text \<open>
  \<^verbatim>\<open>location: string | URL\<close>. A string is a value. A \<^verbatim>\<open>URL\<close> is an object: the
  code holds a reference to it, and what the object reads can change while the reference
  stays the same. Of the object only its serialisation matters here, the text that
  \<^verbatim>\<open>URL.prototype.toString()\<close> returns (\<^verbatim>\<open>href\<close>). The URL objects of the program
  are a store from references to objects; every reference denotes an object.
\<close>

record URL =
  href :: string

type_synonym url_ref = nat

datatype Location = Location_string string | Location_URL url_ref

text \<open>
  \<^verbatim>\<open>location.toString()\<close> and the template literal \<^verbatim>\<open>`${location}`\<close> both give the
  string itself, or the \<^verbatim>\<open>href\<close> the object has in the store at the moment of the
  conversion.
\<close>

fun toString :: "(url_ref \<Rightarrow> URL) \<Rightarrow> Location \<Rightarrow> string" where
  "toString objects (Location_string s) = s"
| "toString objects (Location_URL r) = href (objects r)"

text \<open>
  The state a handler runs in: the URL objects as they are now, and the state of the
  host. \<open>set_href\<close> is the assignment \<^verbatim>\<open>url.href = text\<close> of the program around the
  package; \<open>every_URL u\<close> is the store in which each object reads \<open>u\<close>.
\<close>

record 'h state =
  urls :: "url_ref \<Rightarrow> URL"
  host :: 'h

definition set_href :: "url_ref \<Rightarrow> string \<Rightarrow> 'h state \<Rightarrow> 'h state" where
  "set_href r text st = st\<lparr> urls := (urls st)(r := (urls st r)\<lparr> href := text \<rparr>) \<rparr>"

definition every_URL :: "URL \<Rightarrow> url_ref \<Rightarrow> URL" where
  "every_URL u r = u"

text \<open>
  The template literal \<^verbatim>\<open>`JSON response: ${status}`\<close> converts a number to a string
  (Number::toString of the language, radix 10). A status is modelled by its integer
  value; the number the code holds is the double nearest to it (\<open>round_to_double\<close>:
  53 significant bits, ties to even; a result of more than 1024 bits is \<^verbatim>\<open>Infinity\<close>).
  The text is made of the shortest decimal digits that still denote that double, the
  nearest such decimal if there are several: written out in full with zeros up to 21
  digits, in exponent form beyond. \<open>digits\<close> and the functions before
  \<open>Number_toString\<close> are applied to numbers from 0 on only.
\<close>

function digits :: "int \<Rightarrow> string" where
  "digits n =
     (if n < 10 then [char_of (48 + n)]
      else digits (n div 10) @ [char_of (48 + n mod 10)])"
  by pat_completeness auto
termination
  by (relation "measure nat") auto

declare digits.simps [simp del]

function bit_length :: "int \<Rightarrow> nat" where
  "bit_length n = (if n \<le> 0 then 0 else Suc (bit_length (n div 2)))"
  by pat_completeness auto
termination
  by (relation "measure nat") auto

declare bit_length.simps [simp del]

definition round_to_double :: "int \<Rightarrow> int" where
  "round_to_double y =
     (let b = bit_length y in
      if b \<le> 53 then y
      else let unit = 2 ^ (b - 53); q = y div unit; r = y mod unit
           in if unit < 2 * r \<or> (2 * r = unit \<and> odd q) then (q + 1) * unit else q * unit)"

definition decimal_candidates :: "int \<Rightarrow> int \<Rightarrow> int list" where
  "decimal_candidates x p =
     (let lo = (x div p) * p; hi = lo + p;
          nearest_first =
            (if x - lo < hi - x then [lo, hi]
             else if hi - x < x - lo then [hi, lo]
             else if even (x div p) then [lo, hi] else [hi, lo])
      in filter (\<lambda>v. round_to_double v = x) nearest_first)"

definition shortest_decimal :: "int \<Rightarrow> int" where
  "shortest_decimal x =
     (let nd = length (digits x)
      in case concat (map (\<lambda>k. decimal_candidates x (10 ^ (nd - k))) [1..<Suc nd]) of
           [] \<Rightarrow> x
         | v # _ \<Rightarrow> v)"

definition unsigned_toString :: "int \<Rightarrow> string" where
  "unsigned_toString y =
     (let x = round_to_double y in
      if 1024 < bit_length x then ''Infinity''
      else let ds = digits (shortest_decimal x);
               n = length ds;
               s = rev (dropWhile (\<lambda>c. c = CHR ''0'') (rev ds))
           in if n \<le> 21 then ds
              else (case s of
                      [] \<Rightarrow> ds
                    | d # rest \<Rightarrow>
                        d # (if rest = [] then [] else CHR ''.'' # rest) @ ''e+'' @ digits (int n - 1)))"

definition Number_toString :: "int \<Rightarrow> string" where
  "Number_toString n =
     (if n < 0 then CHR ''-'' # unsigned_toString (- n) else unsigned_toString n)"

subsection \<open>The host: response object and continuation\<close>

text \<open>
  Express is not part of the package. Its response object is taken as a parameter: a
  record of the three methods the package calls, each a transformer of the state \<open>'w\<close>
  of the host. \<^verbatim>\<open>res.status(code)\<close> returns \<^verbatim>\<open>this\<close>, so the call chained after it
  goes to the same object. \<^verbatim>\<open>next(err)\<close> is a transformer too; \<open>'x\<close> is the type of
  the values that are not throwable responses.
\<close>

record ('n, 'w) Response =
  status :: "int \<Rightarrow> 'w \<Rightarrow> 'w"
  json :: "'n Json \<Rightarrow> 'w \<Rightarrow> 'w"
  redirect :: "int \<Rightarrow> string \<Rightarrow> 'w \<Rightarrow> 'w"

type_synonym ('x, 'w) NextFunction = "'x \<Rightarrow> 'w \<Rightarrow> 'w"

type_synonym ('q, 'n, 'x, 'w) Handler =
  "'q \<Rightarrow> ('n, 'w) Response \<Rightarrow> ('x, 'w) NextFunction \<Rightarrow> 'w \<Rightarrow> 'w"

text \<open>
  To count calls, the host that only records them: its state is the list of the calls
  received so far, on the response object and on the continuation, oldest first.
\<close>

datatype ('n, 'x) call =
    Status_call int
  | Json_call "'n Json"
  | Redirect_call int string
  | Next_call 'x

definition recording_response :: "('n, ('n, 'x) call list) Response" where
  "recording_response =
     \<lparr> status = (\<lambda>code log. log @ [Status_call code]),
       json = (\<lambda>body log. log @ [Json_call body]),
       redirect = (\<lambda>code url log. log @ [Redirect_call code url]) \<rparr>"

definition recording_next :: "('x, ('n, 'x) call list) NextFunction" where
  "recording_next err log = log @ [Next_call err]"

text \<open>
  A host whose state is \<open>'h\<close>, seen from a handler that runs in a \<open>'h state\<close>: its
  methods change the state of the host and leave the URL objects as they are.
\<close>

definition in_state :: "('h \<Rightarrow> 'h) \<Rightarrow> 'h state \<Rightarrow> 'h state" where
  "in_state f st = st\<lparr> host := f (host st) \<rparr>"

definition state_response :: "('n, 'h) Response \<Rightarrow> ('n, 'h state) Response" where
  "state_response res =
     \<lparr> status = (\<lambda>code. in_state (status res code)),
       json = (\<lambda>body. in_state (json res body)),
       redirect = (\<lambda>code url. in_state (redirect res code url)) \<rparr>"

definition state_next :: "('x, 'h) NextFunction \<Rightarrow> ('x, 'h state) NextFunction" where
  "state_next next err = in_state (next err)"

subsection \<open>The classes\<close>

text \<open>
  The classes of the hierarchy under \<^verbatim>\<open>ThrowableResponse\<close>: the three of the package
  and any class a user declares with \<^verbatim>\<open>class name extends parent\<close>, as the README's
  \<^verbatim>\<open>ThrowableHtml\<close>. \<open>prototype_chain\<close> lists what \<^verbatim>\<open>instanceof\<close> walks through,
  nearest first; every chain ends in \<^verbatim>\<open>ThrowableResponse\<close> and \<^verbatim>\<open>Error\<close>.
\<close>

datatype throwable_class =
    ThrowableResponse_class
  | ThrowableRedirect_class
  | ThrowableJson_class
  | Extends string throwable_class

datatype js_class = Error_class | Throwable throwable_class

primrec prototype_chain :: "throwable_class \<Rightarrow> js_class list" where
  "prototype_chain ThrowableResponse_class = [Throwable ThrowableResponse_class, Error_class]"
| "prototype_chain ThrowableRedirect_class =
     [Throwable ThrowableRedirect_class, Throwable ThrowableResponse_class, Error_class]"
| "prototype_chain ThrowableJson_class =
     [Throwable ThrowableJson_class, Throwable ThrowableResponse_class, Error_class]"
| "prototype_chain (Extends name parent) = Throwable (Extends name parent) # prototype_chain parent"

text \<open>
  An object built by the constructor of \<^verbatim>\<open>ThrowableResponse\<close>: the class it was
  built as, the \<^verbatim>\<open>message\<close> that \<^verbatim>\<open>Error\<close>'s constructor stores, and the public
  field \<^verbatim>\<open>handler\<close>. \<^verbatim>\<open>ThrowableRedirect\<close> and \<^verbatim>\<open>ThrowableJson\<close> declare no field of
  their own: location, payload and status live only in the closure of the handler.
\<close>

record ('q, 'n, 'x, 'w) throwable_response =
  constructed_as :: throwable_class
  message :: string
  handler :: "('q, 'n, 'x, 'w) Handler"

definition instanceof :: "('q, 'n, 'x, 'w) throwable_response \<Rightarrow> js_class \<Rightarrow> bool" where
  "instanceof obj c = (c \<in> set (prototype_chain (constructed_as obj)))"

text \<open>
  \<^verbatim>\<open>super(messageForErrorConstructor ?? "Not an error: response thrown")\<close> and the
  parameter property \<^verbatim>\<open>public handler\<close>.
\<close>

definition ThrowableResponse ::
  "('q, 'n, 'x, 'w) Handler \<Rightarrow> string option \<Rightarrow> ('q, 'n, 'x, 'w) throwable_response" where
  "ThrowableResponse h messageForErrorConstructor =
     \<lparr> constructed_as = ThrowableResponse_class,
       message = (case messageForErrorConstructor of
                    None \<Rightarrow> ''Not an error: response thrown''
                  | Some m \<Rightarrow> m),
       handler = h \<rparr>"

text \<open>
  \<^verbatim>\<open>constructor(location: string | URL, status: 301 | 302 | 303 | 307 | 308 = 302)\<close>
  with the body
  \<^verbatim>\<open>super((_, res) => res.redirect(status, location.toString()), `Redirecting to ${location}`)\<close>.
  The union of literals is a static type, erased when the code runs, and the body has no
  check of its own: the status is an integer here, \<open>None\<close> when the argument is left out.
  The template literal is evaluated when the constructor runs, on the URL objects as
  they are then (the first argument). \<^verbatim>\<open>location.toString()\<close> is inside the arrow
  function: it is evaluated each time the handler runs, on the URL objects of the state
  the handler runs in.
\<close>

definition ThrowableRedirect ::
  "(url_ref \<Rightarrow> URL) \<Rightarrow> Location \<Rightarrow> int option \<Rightarrow> ('q, 'n, 'x, 'h state) throwable_response" where
  "ThrowableRedirect objects location status_arg =
     (let status_code = (case status_arg of None \<Rightarrow> 302 | Some s \<Rightarrow> s)
      in (ThrowableResponse
            (\<lambda>_ res _ st. redirect res status_code (toString (urls st) location) st)
            (Some (''Redirecting to '' @ toString objects location)))
         \<lparr> constructed_as := ThrowableRedirect_class \<rparr>)"

text \<open>
  \<^verbatim>\<open>constructor(json: Json, status: number = 200)\<close> with the body
  \<^verbatim>\<open>super((_, res) => res.status(status).json(json), `JSON response: ${status}`)\<close>.
\<close>

definition ThrowableJson ::
  "'n Json \<Rightarrow> int option \<Rightarrow> ('q, 'n, 'x, 'w) throwable_response" where
  "ThrowableJson payload status_arg =
     (let status_code = (case status_arg of None \<Rightarrow> 200 | Some s \<Rightarrow> s)
      in (ThrowableResponse
            (\<lambda>_ res _ w. json res payload (status res status_code w))
            (Some (''JSON response: '' @ Number_toString status_code)))
         \<lparr> constructed_as := ThrowableJson_class \<rparr>)"

subsection \<open>The middleware\<close>

text \<open>
  What the error channel can carry (\<^verbatim>\<open>err: any\<close>): an object of the hierarchy of
  \<^verbatim>\<open>ThrowableResponse\<close>, or any other value. \<^verbatim>\<open>err instanceof ThrowableResponse\<close>
  tells the two apart, and in its true branch TypeScript narrows \<^verbatim>\<open>err\<close> to the class,
  whose \<^verbatim>\<open>handler\<close> is always there.
\<close>

datatype ('q, 'n, 'x, 'w) thrown =
    Object "('q, 'n, 'x, 'w) throwable_response"
  | Other 'x

fun instanceof_ThrowableResponse :: "('q, 'n, 'x, 'w) thrown \<Rightarrow> bool" where
  "instanceof_ThrowableResponse (Object obj) = instanceof obj (Throwable ThrowableResponse_class)"
| "instanceof_ThrowableResponse (Other x) = False"

text \<open>
  \<^verbatim>\<open>if (err instanceof ThrowableResponse) err.handler(req, res, next) else next(err)\<close>
\<close>

fun throwableResponses ::
  "('q, 'n, 'x, 'w) thrown \<Rightarrow> 'q \<Rightarrow> ('n, 'w) Response \<Rightarrow> ('x, 'w) NextFunction \<Rightarrow> 'w \<Rightarrow> 'w" where
  "throwableResponses (Object obj) req res next = handler obj req res next"
| "throwableResponses (Other x) req res next = next x"

section \<open>Properties\<close>

subsection \<open>Auxiliary facts\<close>

lemma ThrowableResponse_in_prototype_chain:
  "Throwable ThrowableResponse_class \<in> set (prototype_chain c)"
  by (induction c) simp_all

lemma Error_in_prototype_chain: "Error_class \<in> set (prototype_chain c)"
  by (induction c) simp_all

lemma handler_of_ThrowableRedirect:
  "handler (ThrowableRedirect objects L s) =
     (\<lambda>_ res _ st. redirect res (case s of None \<Rightarrow> 302 | Some c \<Rightarrow> c) (toString (urls st) L) st)"
  by (simp add: ThrowableRedirect_def ThrowableResponse_def Let_def)

lemma handler_of_ThrowableJson:
  "handler (ThrowableJson V s) =
     (\<lambda>_ res _ w. json res V (status res (case s of None \<Rightarrow> 200 | Some c \<Rightarrow> c) w))"
  by (simp add: ThrowableJson_def ThrowableResponse_def Let_def)

lemma message_of_ThrowableResponse:
  "message (ThrowableResponse h None) = ''Not an error: response thrown''"
  "message (ThrowableResponse h (Some m)) = m"
  by (simp_all add: ThrowableResponse_def)

lemma message_of_ThrowableRedirect:
  "message (ThrowableRedirect objects L s) = ''Redirecting to '' @ toString objects L"
  by (simp add: ThrowableRedirect_def ThrowableResponse_def Let_def)

lemma message_of_ThrowableJson:
  "message (ThrowableJson V s) =
     ''JSON response: '' @ Number_toString (case s of None \<Rightarrow> 200 | Some c \<Rightarrow> c)"
  by (simp add: ThrowableJson_def ThrowableResponse_def Let_def)

lemma constructed_as_of_constructors:
  "constructed_as (ThrowableResponse h m) = ThrowableResponse_class"
  "constructed_as (ThrowableRedirect objects L s) = ThrowableRedirect_class"
  "constructed_as (ThrowableJson V c) = ThrowableJson_class"
  by (simp_all add: ThrowableResponse_def ThrowableRedirect_def ThrowableJson_def Let_def)

lemma recording_response_calls:
  "status recording_response c log = log @ [Status_call c]"
  "json recording_response V log = log @ [Json_call V]"
  "redirect recording_response c u log = log @ [Redirect_call c u]"
  by (simp_all add: recording_response_def)

lemma state_response_calls:
  "status (state_response res) c st = st\<lparr> host := status res c (host st) \<rparr>"
  "json (state_response res) V st = st\<lparr> host := json res V (host st) \<rparr>"
  "redirect (state_response res) c u st = st\<lparr> host := redirect res c u (host st) \<rparr>"
  by (simp_all add: state_response_def in_state_def)

subsection \<open>The examples of the specification, run through the middleware\<close>

lemma example_json_not_found:
  "throwableResponses
     (Object (ThrowableJson (JObject [(''error'', JString ''Not found'')]) (Some 404)))
     req recording_response recording_next []
   = [Status_call 404, Json_call (JObject [(''error'', JString ''Not found'')])]"
  by (simp add: handler_of_ThrowableJson recording_response_calls)

lemma example_redirect_login:
  "throwableResponses (Object (ThrowableRedirect objects (Location_string ''/login'') None))
     req (state_response recording_response) (state_next recording_next)
     \<lparr> urls = objects', host = [] \<rparr>
   = \<lparr> urls = objects', host = [Redirect_call 302 ''/login''] \<rparr>"
  by (simp add: handler_of_ThrowableRedirect state_response_calls recording_response_calls)

lemma example_json_message:
  "message (ThrowableJson V (Some 404)) = ''JSON response: 404''"
  unfolding message_of_ThrowableJson by code_simp

lemma example_Number_toString_small: "Number_toString (- 5) = ''-5''"
  by code_simp

lemma example_Number_toString_rounded: "Number_toString (2 ^ 60) = ''1152921504606847000''"
  by code_simp

lemma example_Number_toString_exponent: "Number_toString (10 ^ 21) = ''1e+21''"
  by code_simp

subsection \<open>The middleware\<close>

text \<open>
  Claim C1. Whatever value reaches \<open>throwableResponses\<close>, it does one of two things.
  If the value is an instance of \<^verbatim>\<open>ThrowableResponse\<close> (of the class or of any class
  that extends it), the middleware calls the handler of that object with the request,
  the response and the continuation it was given, and does nothing else: the state of
  the host after the middleware is the state after the handler, and with a handler that
  does nothing the recording host has received no call at all, so the middleware itself
  has not called the continuation. Any other value is passed to the continuation,
  unchanged, exactly once, and no method of the response is called: the recording host
  has received that one call of \<^verbatim>\<open>next\<close> and nothing more. Every value is of one of
  the two kinds.
\<close>

theorem throwableResponses_runs_handler_or_forwards:
  "instanceof_ThrowableResponse (Object obj)
   \<and> throwableResponses (Object obj) req res next w = handler obj req res next w
   \<and> throwableResponses (Object (ThrowableResponse (\<lambda>_ _ _ st. st) m))
        req' recording_response recording_next log = log
   \<and> \<not> instanceof_ThrowableResponse (Other x)
   \<and> throwableResponses (Other x) req res next w = next x w
   \<and> throwableResponses (Other x) req' res' recording_next log = log @ [Next_call x]
   \<and> (instanceof_ThrowableResponse err \<or> (\<exists>v. err = Other v))"
proof -
  have kinds: "instanceof_ThrowableResponse err \<or> (\<exists>v. err = Other v)"
    by (cases err) (simp_all add: instanceof_def ThrowableResponse_in_prototype_chain)
  have noop: "handler (ThrowableResponse (\<lambda>_ _ _ st. st) m) req' recording_response recording_next log = log"
    by (simp add: ThrowableResponse_def)
  show ?thesis
    using kinds noop
    by (simp add: instanceof_def ThrowableResponse_in_prototype_chain recording_next_def)
qed

subsection \<open>ThrowableRedirect\<close>

text \<open>
  Claim C2. The claim says that building a \<^verbatim>\<open>ThrowableRedirect\<close> with a status
  outside 301, 302, 303, 307 and 308, such as 299, fails at construction, and the
  constructor's own documentation promises a \<^verbatim>\<open>TypeError\<close> for an invalid code. The
  constructor has no such check: with 299 it builds an object of class
  \<^verbatim>\<open>ThrowableRedirect\<close>, and the handler of that object, once run, asks the response
  for a redirect with status 299.
\<close>

theorem ThrowableRedirect_accepts_299:
  "constructed_as (ThrowableRedirect (every_URL \<lparr>href = ''about:blank''\<rparr>)
                     (Location_string ''/login'') (Some 299)
      :: (unit, int, unit, (int, unit) call list state) throwable_response) = ThrowableRedirect_class
   \<and> message (ThrowableRedirect (every_URL \<lparr>href = ''about:blank''\<rparr>)
                (Location_string ''/login'') (Some 299)
      :: (unit, int, unit, (int, unit) call list state) throwable_response) = ''Redirecting to /login''
   \<and> throwableResponses
       (Object (ThrowableRedirect (every_URL \<lparr>href = ''about:blank''\<rparr>)
                  (Location_string ''/login'') (Some 299)))
       () (state_response recording_response) (state_next recording_next)
       \<lparr> urls = every_URL \<lparr>href = ''about:blank''\<rparr>, host = ([] :: (int, unit) call list) \<rparr>
     = \<lparr> urls = every_URL \<lparr>href = ''about:blank''\<rparr>, host = [Redirect_call 299 ''/login''] \<rparr>"
  by (simp add: constructed_as_of_constructors message_of_ThrowableRedirect
        handler_of_ThrowableRedirect state_response_calls recording_response_calls)

text \<open>
  Claim C4. For every status among 301, 302, 303, 307 and 308 and every location, a
  string or a \<^verbatim>\<open>URL\<close>, running the handler of \<^verbatim>\<open>ThrowableRedirect(location, status)\<close>
  makes exactly one call, \<^verbatim>\<open>res.redirect\<close> with that status and the string form of the
  location, the one it has when the handler runs: on the recording host this one call
  is all that is added, so no other method of the response and no continuation is
  called, and the URL objects are left as they are; on any host the new state is the one
  its \<^verbatim>\<open>redirect\<close> produces.
\<close>

theorem ThrowableRedirect_handler_one_redirect:
  "S \<in> {301, 302, 303, 307, 308} \<Longrightarrow>
   handler (ThrowableRedirect objects L (Some S)) req
       (state_response recording_response) (state_next recording_next) st
     = st\<lparr> host := host st @ [Redirect_call S (toString (urls st) L)] \<rparr>
   \<and> handler (ThrowableRedirect objects L (Some S)) req res next st
     = redirect res S (toString (urls st) L) st"
  by (simp add: handler_of_ThrowableRedirect state_response_calls recording_response_calls)

theorem ThrowableRedirect_handler_one_redirect_witness:
  "(308::int) \<in> {301, 302, 303, 307, 308}
   \<and> handler (ThrowableRedirect (every_URL \<lparr>href = ''https://example.com/profile''\<rparr>)
                (Location_URL 0) (Some 308))
       () (state_response recording_response) (state_next recording_next)
       \<lparr> urls = every_URL \<lparr>href = ''https://example.com/profile''\<rparr>,
         host = [Next_call () :: (int, unit) call] \<rparr>
     = \<lparr> urls = every_URL \<lparr>href = ''https://example.com/profile''\<rparr>,
         host = [Next_call (), Redirect_call 308 ''https://example.com/profile''] \<rparr>"
proof -
  have code: "(308::int) \<in> {301, 302, 303, 307, 308}" by simp
  let ?st = "\<lparr> urls = every_URL \<lparr>href = ''https://example.com/profile''\<rparr>,
               host = [Next_call () :: (int, unit) call] \<rparr>"
  have "handler (ThrowableRedirect (every_URL \<lparr>href = ''https://example.com/profile''\<rparr>)
                   (Location_URL 0) (Some 308))
          () (state_response recording_response) (state_next recording_next) ?st
        = ?st\<lparr> host := host ?st @ [Redirect_call 308 (toString (urls ?st) (Location_URL 0))] \<rparr>"
    by (rule ThrowableRedirect_handler_one_redirect [OF code, THEN conjunct1])
  then show ?thesis by (simp add: every_URL_def)
qed

text \<open>
  Claim C6. \<^verbatim>\<open>ThrowableRedirect(location)\<close> with the status left out redirects with
  status 302: the one call its handler makes is \<^verbatim>\<open>res.redirect(302, location.toString())\<close>.
\<close>

theorem ThrowableRedirect_default_status_302:
  "handler (ThrowableRedirect objects L None) req
       (state_response recording_response) (state_next recording_next) st
     = st\<lparr> host := host st @ [Redirect_call 302 (toString (urls st) L)] \<rparr>
   \<and> handler (ThrowableRedirect objects L None) req res next st
     = redirect res 302 (toString (urls st) L) st"
  by (simp add: handler_of_ThrowableRedirect state_response_calls recording_response_calls)

text \<open>
  Claim C8. For every location and every valid status, given or left out, the message
  of \<^verbatim>\<open>ThrowableRedirect(location, status)\<close> is the text \<^verbatim>\<open>Redirecting to \<close> followed
  by the string form of the location, the one it has when the object is built.
\<close>

theorem ThrowableRedirect_message:
  "S \<in> {301, 302, 303, 307, 308} \<Longrightarrow>
   message (ThrowableRedirect objects L (Some S)) = ''Redirecting to '' @ toString objects L
   \<and> message (ThrowableRedirect objects L None) = ''Redirecting to '' @ toString objects L"
  by (simp add: message_of_ThrowableRedirect)

theorem ThrowableRedirect_message_witness:
  "(301::int) \<in> {301, 302, 303, 307, 308}
   \<and> message (ThrowableRedirect (every_URL \<lparr>href = ''about:blank''\<rparr>)
                (Location_string ''/new-home'') (Some 301)
        :: (unit, int, unit, (int, unit) call list state) throwable_response)
     = ''Redirecting to /new-home''"
proof -
  have code: "(301::int) \<in> {301, 302, 303, 307, 308}" by simp
  have "message (ThrowableRedirect (every_URL \<lparr>href = ''about:blank''\<rparr>)
                   (Location_string ''/new-home'') (Some 301)
          :: (unit, int, unit, (int, unit) call list state) throwable_response)
        = ''Redirecting to '' @ toString (every_URL \<lparr>href = ''about:blank''\<rparr>)
                                   (Location_string ''/new-home'')"
    by (rule ThrowableRedirect_message [OF code, THEN conjunct1])
  then show ?thesis by simp
qed

text \<open>
  Claim C9, as it is stated, fails: the handler would be fixed at construction by
  location and status, so that two objects built from equal locations and statuses
  have the same effect. The handler converts the location each time it runs. Two
  \<^verbatim>\<open>URL\<close> objects read \<^verbatim>\<open>https://example.com/a\<close> when two redirects with status 302
  are built from them; then the first object is set to \<^verbatim>\<open>https://example.com/b\<close>. Run
  in the same state on the same response, the first handler redirects to the new text
  and the second to the old one.
\<close>

theorem ThrowableRedirect_equal_inputs_different_redirects:
  "toString (every_URL \<lparr>href = ''https://example.com/a''\<rparr>) (Location_URL 0)
     = toString (every_URL \<lparr>href = ''https://example.com/a''\<rparr>) (Location_URL 1)
   \<and> host (handler (ThrowableRedirect (every_URL \<lparr>href = ''https://example.com/a''\<rparr>)
                      (Location_URL 0) (Some 302))
             () (state_response recording_response) (state_next recording_next)
             (set_href 0 ''https://example.com/b''
                \<lparr> urls = every_URL \<lparr>href = ''https://example.com/a''\<rparr>,
                  host = ([] :: (int, unit) call list) \<rparr>))
       = [Redirect_call 302 ''https://example.com/b'']
   \<and> host (handler (ThrowableRedirect (every_URL \<lparr>href = ''https://example.com/a''\<rparr>)
                      (Location_URL 1) (Some 302))
             () (state_response recording_response) (state_next recording_next)
             (set_href 0 ''https://example.com/b''
                \<lparr> urls = every_URL \<lparr>href = ''https://example.com/a''\<rparr>,
                  host = ([] :: (int, unit) call list) \<rparr>))
       = [Redirect_call 302 ''https://example.com/a'']
   \<and> handler (ThrowableRedirect (every_URL \<lparr>href = ''https://example.com/a''\<rparr>)
                (Location_URL 0) (Some 302))
         () (state_response recording_response) (state_next recording_next)
         (set_href 0 ''https://example.com/b''
            \<lparr> urls = every_URL \<lparr>href = ''https://example.com/a''\<rparr>,
              host = ([] :: (int, unit) call list) \<rparr>)
     \<noteq> handler (ThrowableRedirect (every_URL \<lparr>href = ''https://example.com/a''\<rparr>)
                  (Location_URL 1) (Some 302))
         () (state_response recording_response) (state_next recording_next)
         (set_href 0 ''https://example.com/b''
            \<lparr> urls = every_URL \<lparr>href = ''https://example.com/a''\<rparr>,
              host = ([] :: (int, unit) call list) \<rparr>)"
  by (simp add: handler_of_ThrowableRedirect state_response_calls recording_response_calls
        set_href_def every_URL_def)

text \<open>
  Claim C9, amended. The handler of a \<^verbatim>\<open>ThrowableRedirect\<close> ignores the request and
  the continuation it is run with: its effect is the one redirect call made of the
  status fixed at construction and of the string form the location has when the handler
  runs. Two objects built from the same status have, in the same state and on the same
  response, the same effect whenever their locations have equal string forms then,
  whatever request and continuation each is run with. For a location that is a string
  the text is fixed at construction.
\<close>

theorem ThrowableRedirect_handler_fixed_up_to_URL_text:
  "handler (ThrowableRedirect objects L s) req res next st
     = handler (ThrowableRedirect objects' L s) req' res next' st
   \<and> handler (ThrowableRedirect objects L s) req res next st
     = redirect res (case s of None \<Rightarrow> 302 | Some c \<Rightarrow> c) (toString (urls st) L) st
   \<and> (toString (urls st) L = toString (urls st) L' \<longrightarrow>
        handler (ThrowableRedirect objects L s) req res next st
          = handler (ThrowableRedirect objects' L' s) req' res next' st)
   \<and> handler (ThrowableRedirect objects (Location_string t) s) req res next st
     = redirect res (case s of None \<Rightarrow> 302 | Some c \<Rightarrow> c) t st"
  by (simp add: handler_of_ThrowableRedirect)

theorem ThrowableRedirect_handler_fixed_up_to_URL_text_witness:
  "toString (urls \<lparr> urls = every_URL \<lparr>href = ''https://example.com/a''\<rparr>,
                    host = ([] :: (int, unit) call list) \<rparr>) (Location_URL 0)
     = toString (urls \<lparr> urls = every_URL \<lparr>href = ''https://example.com/a''\<rparr>,
                        host = ([] :: (int, unit) call list) \<rparr>) (Location_URL 1)
   \<and> handler (ThrowableRedirect (every_URL \<lparr>href = ''https://example.com/a''\<rparr>)
                (Location_URL 0) (Some 302))
         () (state_response recording_response) (state_next recording_next)
         \<lparr> urls = every_URL \<lparr>href = ''https://example.com/a''\<rparr>,
           host = ([] :: (int, unit) call list) \<rparr>
     = handler (ThrowableRedirect (every_URL \<lparr>href = ''https://example.com/a''\<rparr>)
                  (Location_URL 1) (Some 302))
         () (state_response recording_response) (state_next recording_next)
         \<lparr> urls = every_URL \<lparr>href = ''https://example.com/a''\<rparr>,
           host = ([] :: (int, unit) call list) \<rparr>"
proof -
  let ?st = "\<lparr> urls = every_URL \<lparr>href = ''https://example.com/a''\<rparr>,
               host = ([] :: (int, unit) call list) \<rparr>"
  have same_text: "toString (urls ?st) (Location_URL 0) = toString (urls ?st) (Location_URL 1)"
    by (simp add: every_URL_def)
  show ?thesis
    by (rule conjI [OF same_text])
       (rule ThrowableRedirect_handler_fixed_up_to_URL_text
          [THEN conjunct2, THEN conjunct2, THEN conjunct1, THEN mp, OF same_text])
qed

subsection \<open>ThrowableJson\<close>

text \<open>
  Claim C3. For every JSON value and every status, running the handler of
  \<^verbatim>\<open>ThrowableJson(json, status)\<close> once makes exactly two calls on the response and none
  on the continuation: first \<^verbatim>\<open>res.status(status)\<close>, the one status write, then
  \<^verbatim>\<open>res.json(json)\<close>, the one body write. \<^verbatim>\<open>res.json\<close> is the host's operation that
  sends its argument as its JSON text with the JSON content type; the handler hands it
  the payload as it was given. On any host the new state is the one its \<^verbatim>\<open>json\<close>
  produces after its \<^verbatim>\<open>status\<close>.
\<close>

theorem ThrowableJson_handler_status_then_json:
  "handler (ThrowableJson V (Some S)) req recording_response recording_next log
     = log @ [Status_call S, Json_call V]
   \<and> handler (ThrowableJson V (Some S)) req res next w = json res V (status res S w)"
  by (simp add: handler_of_ThrowableJson recording_response_calls)

text \<open>
  Claim C7. The constructor of \<^verbatim>\<open>ThrowableJson\<close> takes every integer as status and
  every payload as it is: for every payload and every integer it builds an object of
  class \<^verbatim>\<open>ThrowableJson\<close> whose handler writes that very status and that very
  payload, so nothing is checked, replaced or normalised. With the status left out the
  handler is the one built with 200.
\<close>

theorem ThrowableJson_any_status_default_200:
  "constructed_as (ThrowableJson V (Some S)) = ThrowableJson_class
   \<and> handler (ThrowableJson V (Some S)) req recording_response recording_next []
       = [Status_call S, Json_call V]
   \<and> handler (ThrowableJson V None) = handler (ThrowableJson V (Some 200))
   \<and> handler (ThrowableJson V None) req recording_response recording_next []
       = [Status_call 200, Json_call V]"
  by (simp add: constructed_as_of_constructors handler_of_ThrowableJson recording_response_calls)

subsection \<open>The message of the error\<close>

text \<open>
  Claim C5, as it is stated, fails: the message of every constructed object would be a
  non-empty string. \<^verbatim>\<open>??\<close> replaces only a missing message, so an empty string
  given by the caller is kept.
\<close>

theorem ThrowableResponse_empty_message_kept:
  "message (ThrowableResponse
      (handler (ThrowableJson (JNull :: int Json) None
                 :: (unit, int, unit, (int, unit) call list) throwable_response))
      (Some [])) = []"
  by (simp add: message_of_ThrowableResponse)

text \<open>
  Claim C5, amended. The message of every \<^verbatim>\<open>ThrowableRedirect\<close> and of every
  \<^verbatim>\<open>ThrowableJson\<close> is a non-empty string; so is the message of a
  \<^verbatim>\<open>ThrowableResponse\<close> built without a message, which gets the generic placeholder,
  and of one built with a non-empty message. A message given by the caller is stored
  as it is.
\<close>

theorem message_nonempty_when_given_nonempty:
  "message (ThrowableRedirect objects L s) \<noteq> []
   \<and> message (ThrowableJson V c) \<noteq> []
   \<and> message (ThrowableResponse h None) \<noteq> []
   \<and> message (ThrowableResponse h' (Some m)) = m
   \<and> (m \<noteq> [] \<longrightarrow> message (ThrowableResponse h' (Some m)) \<noteq> [])"
  by (simp add: message_of_ThrowableRedirect message_of_ThrowableJson message_of_ThrowableResponse)

theorem message_nonempty_when_given_nonempty_witness:
  "''Teapot response'' \<noteq> []
   \<and> message (ThrowableResponse
        (handler (ThrowableJson (JNull :: int Json) None
                   :: (unit, int, unit, (int, unit) call list) throwable_response))
        (Some ''Teapot response'')) \<noteq> []"
proof -
  have given: "''Teapot response'' \<noteq> []" by simp
  show ?thesis
    by (rule conjI [OF given])
       (rule message_nonempty_when_given_nonempty
          [THEN conjunct2, THEN conjunct2, THEN conjunct2, THEN conjunct2, THEN mp, OF given])
qed

text \<open>
  Claim C10. Every object built by \<^verbatim>\<open>ThrowableResponse\<close>, \<^verbatim>\<open>ThrowableRedirect\<close> or
  \<^verbatim>\<open>ThrowableJson\<close> is an instance of \<^verbatim>\<open>Error\<close>, and the \<^verbatim>\<open>message\<close> of the error is
  the message the constructor was given or made: for \<^verbatim>\<open>ThrowableResponse\<close> the
  argument, or \<^verbatim>\<open>Not an error: response thrown\<close> when it is left out; for
  \<^verbatim>\<open>ThrowableRedirect\<close> the text \<^verbatim>\<open>Redirecting to \<close> and the location as it
  reads when the object is built; for
  \<^verbatim>\<open>ThrowableJson\<close> the text \<^verbatim>\<open>JSON response: \<close> and the status.
\<close>

theorem throwables_are_Errors_with_message:
  "instanceof (ThrowableResponse h m) Error_class
   \<and> instanceof (ThrowableRedirect objects L s) Error_class
   \<and> instanceof (ThrowableJson V c) Error_class
   \<and> message (ThrowableResponse h None) = ''Not an error: response thrown''
   \<and> message (ThrowableResponse h (Some d)) = d
   \<and> message (ThrowableRedirect objects L s) = ''Redirecting to '' @ toString objects L
   \<and> message (ThrowableJson V c)
       = ''JSON response: '' @ Number_toString (case c of None \<Rightarrow> 200 | Some k \<Rightarrow> k)"
  by (simp add: instanceof_def Error_in_prototype_chain message_of_ThrowableRedirect
        message_of_ThrowableJson message_of_ThrowableResponse)

end
